theory Spec2Isabelle
  imports Complex_Main
begin

section \<open>The attention-graph component, D3AttentionGraph.tsx\<close>

text \<open>
  The component keeps a state \<open>(data, width, height)\<close> and a reference to an SVG element.
  Its method \<open>renderGraph\<close> empties the SVG element, lays the grid of (layer, token) nodes
  out with two linear scales, and appends a circle and a text per node and a line per
  attention pattern whose two endpoints are nodes of the grid.

  Numbers: \<open>numLayers\<close>, \<open>numTokens\<close>, the loop counters and the indices of a pattern are
  integers (\<open>int\<close>); a JavaScript number holds every integer up to \<open>2^53\<close> exactly, far more
  than a grid that can be drawn. Widths, heights, coordinates and weights are \<open>real\<close>, so
  the arithmetic of the scales is taken without rounding. An SVG attribute set from a
  number is kept as that number.

  No statement of \<open>renderGraph\<close> throws on a dataset of the declared type \<open>GraphData\<close>, and
  the method has no \<open>throw\<close> of its own, so it is a total function from the component
  before the call to the component after it; its only early exit is the \<open>return\<close> of
  line 80.
\<close>

subsection \<open>JavaScript values\<close>

text \<open>
  Reading an array at an index it does not have gives \<open>undefined\<close> in JavaScript; it does
  not throw. So \<open>tokens[t]\<close> is a string or \<open>undefined\<close>.
\<close>

datatype js_string = Str string | Undefined

definition array_get :: "string list \<Rightarrow> int \<Rightarrow> js_string" where
  "array_get xs i = (if 0 \<le> i \<and> i < int (length xs) then Str (xs ! nat i) else Undefined)"

text \<open>
  A template literal \<open>`...${v}...`\<close> converts \<open>v\<close> to a string: a string is itself,
  \<open>undefined\<close> is the text "undefined", an integer is its decimal numeral (with a leading
  minus sign when negative).
\<close>

definition template_string :: "js_string \<Rightarrow> string" where
  "template_string v = (case v of Str s \<Rightarrow> s | Undefined \<Rightarrow> ''undefined'')"

definition digit :: "nat \<Rightarrow> char" where
  "digit n = ''0123456789'' ! n"

function digits :: "nat \<Rightarrow> string" where
  "digits n = (if n < 10 then [digit n] else digits (n div 10) @ [digit (n mod 10)])"
  by pat_completeness auto
termination
  by (relation "measure id") auto

declare digits.simps [simp del]

definition template_number :: "int \<Rightarrow> string" where
  "template_number i = (if i < 0 then ''-'' @ digits (nat (- i)) else digits (nat i))"

subsection \<open>The interfaces of the component\<close>

record Node =
  layer :: int
  token :: int
  x :: real
  y :: real
  label :: js_string

record AttentionPattern =
  sourceLayer :: int
  sourceToken :: int
  destLayer :: int
  destToken :: int
  weight :: real
  head :: int

record GraphData =
  numLayers :: int
  numTokens :: int
  tokens :: "string list option"
  attentionPatterns :: "AttentionPattern list"

record State =
  data :: "GraphData option"
  width :: real
  height :: real

text \<open>
  The elements \<open>renderGraph\<close> creates, with the attributes it sets, in the order it sets
  them: \<open>circle\<close> (cx, cy, r, fill), \<open>text\<close> (x, y, text-anchor, font-size, content),
  \<open>line\<close> (x1, y1, x2, y2, stroke, stroke-width, opacity) and \<open>g\<close> (transform, children).
\<close>

datatype svg_element =
    Circle real real real string
  | Text real real string string string
  | Line real real real real string real real
  | Group string "svg_element list"

text \<open>
  The component: its React state and \<open>svgRef.current\<close>, which is \<open>null\<close> (\<open>None\<close>) or the
  SVG element, given by the list of its children.
\<close>

record D3AttentionGraph =
  state :: State
  svgRef :: "svg_element list option"

subsection \<open>The linear scale of d3\<close>

text \<open>
  The component imports d3; the scale is the library's, not the component's.
  \<open>d3.scaleLinear().domain([d0, d1]).range([r0, r1])\<close> is the continuous scale with a
  two-point domain and range, as d3-scale 4 (the one of d3 7, current when the component
  was written) defines it in \<open>continuous.js\<close>: \<open>bimap\<close> composes \<open>normalize\<close>, which maps
  the domain to the parameter \<open>t\<close>, with the number interpolator of d3-interpolate, which
  maps \<open>t\<close> to the range.
  \<^verbatim>\<open>
  function normalize(a, b) {
    return (b -= (a = +a))
        ? function(x) { return (x - a) / b; }
        : constant(isNaN(b) ? NaN : 0.5);
  }
  function bimap(domain, range, interpolate) {
    var d0 = domain[0], d1 = domain[1], r0 = range[0], r1 = range[1];
    if (d1 < d0) d0 = normalize(d1, d0), r0 = interpolate(r1, r0);
    else d0 = normalize(d0, d1), r0 = interpolate(r0, r1);
    return function(x) { return r0(d0(x)); };
  }
  function interpolateNumber(a, b) {
    return a = +a, b = +b, function(t) { return a * (1 - t) + b * t; };
  }
  \<close>
  \<open>normalize\<close> tests the extent of the domain before it divides: on a domain of extent
  zero it is the constant 0.5, so the scale gives the midpoint of its range. (In
  d3-scale 1, the one of d3 4, the constant was 0, which gives the start of the range.)
\<close>

definition normalize :: "real \<Rightarrow> real \<Rightarrow> real \<Rightarrow> real" where
  "normalize a b = (if b - a \<noteq> 0 then (\<lambda>v. (v - a) / (b - a)) else (\<lambda>v. 0.5))"

definition interpolateNumber :: "real \<Rightarrow> real \<Rightarrow> real \<Rightarrow> real" where
  "interpolateNumber a b = (\<lambda>t. a * (1 - t) + b * t)"

definition bimap :: "real \<times> real \<Rightarrow> real \<times> real \<Rightarrow> real \<Rightarrow> real" where
  "bimap dm rg =
     (let d0 = fst dm; d1 = snd dm; r0 = fst rg; r1 = snd rg
      in if d1 < d0 then (\<lambda>v. interpolateNumber r1 r0 (normalize d1 d0 v))
         else (\<lambda>v. interpolateNumber r0 r1 (normalize d0 d1 v)))"

definition scaleLinear :: "real \<times> real \<Rightarrow> real \<times> real \<Rightarrow> real \<Rightarrow> real" where
  "scaleLinear dm rg = bimap dm rg"

subsection \<open>renderGraph\<close>

text \<open>The margins: \<open>{ top: 20, right: 20, bottom: 20, left: 20 }\<close>.\<close>

definition margin_top :: int where "margin_top = 20"
definition margin_right :: int where "margin_right = 20"
definition margin_bottom :: int where "margin_bottom = 20"
definition margin_left :: int where "margin_left = 20"

text \<open>
  The inner loop \<open>for (let t = 0; t < numTokens; t++) nodes.push({...})\<close>, from the
  counter \<open>t\<close> on, and the outer loop \<open>for (let l = 0; l < numLayers; l++)\<close>, from the
  counter \<open>l\<close> on. Both thread the array \<open>nodes\<close>; \<open>push\<close> appends at the end.
\<close>

function tokenLoop ::
  "(real \<Rightarrow> real) \<Rightarrow> (real \<Rightarrow> real) \<Rightarrow> string list option \<Rightarrow> int \<Rightarrow> int \<Rightarrow> int \<Rightarrow> Node list
    \<Rightarrow> Node list" where
  "tokenLoop xScale yScale toks nTokens l t nodes =
     (if t < nTokens
      then tokenLoop xScale yScale toks nTokens l (t + 1)
             (nodes @ [\<lparr>layer = l, token = t, x = xScale (of_int t), y = yScale (of_int l),
                        label = (case toks of
                                   Some ts \<Rightarrow> array_get ts t
                                 | None \<Rightarrow> Str (''T'' @ template_number t))\<rparr>])
      else nodes)"
  by pat_completeness auto
termination
  by (relation "measure (\<lambda>(xScale, yScale, toks, nTokens, l, t, nodes). nat (nTokens - t))") auto

declare tokenLoop.simps [simp del]

function layerLoop ::
  "(real \<Rightarrow> real) \<Rightarrow> (real \<Rightarrow> real) \<Rightarrow> string list option \<Rightarrow> int \<Rightarrow> int \<Rightarrow> int \<Rightarrow> Node list
    \<Rightarrow> Node list" where
  "layerLoop xScale yScale toks nLayers nTokens l nodes =
     (if l < nLayers
      then layerLoop xScale yScale toks nLayers nTokens (l + 1)
             (tokenLoop xScale yScale toks nTokens l 0 nodes)
      else nodes)"
  by pat_completeness auto
termination
  by (relation "measure (\<lambda>(xScale, yScale, toks, nLayers, nTokens, l, nodes). nat (nLayers - l))")
    auto

declare layerLoop.simps [simp del]

text \<open>
  Lines 89 to 118: the inner rectangle, the two scales and the array \<open>nodes\<close>, from the
  dataset and the \<open>width\<close> and \<open>height\<close> of the state.
\<close>

definition createNodes :: "GraphData \<Rightarrow> real \<Rightarrow> real \<Rightarrow> Node list" where
  "createNodes d w h =
     (let innerWidth = w - of_int margin_left - of_int margin_right;
          innerHeight = h - of_int margin_top - of_int margin_bottom;
          xScale = scaleLinear (0, of_int (numTokens d - 1)) (0, innerWidth);
          yScale = scaleLinear (0, of_int (numLayers d - 1)) (0, innerHeight)
      in layerLoop xScale yScale (tokens d) (numLayers d) (numTokens d) 0 [])"

text \<open>
  Lines 121 to 139. The group \<open>g\<close> has no circle when the circles are joined to \<open>nodes\<close>
  and no text when the texts are, so every node is in the \<open>enter\<close> selection and gets one
  element, appended to \<open>g\<close> in the order of \<open>nodes\<close>.
\<close>

definition drawNodes :: "Node list \<Rightarrow> svg_element list \<Rightarrow> svg_element list" where
  "drawNodes nodes g = g @ map (\<lambda>d. Circle (x d) (y d) 5 ''#e5e7eb'') nodes"

definition addLabels :: "Node list \<Rightarrow> svg_element list \<Rightarrow> svg_element list" where
  "addLabels nodes g =
     g @ map (\<lambda>d. Text (x d) (y d - 10) ''middle'' ''12px''
                    (''L'' @ template_number (layer d) @ ''-'' @ template_string (label d))) nodes"

text \<open>
  Lines 142 to 156: the callback of \<open>attentionPatterns.forEach\<close>, and the loop. \<open>find\<close>
  gives the first node that matches or \<open>undefined\<close>; a node is an object, so it is truthy.
\<close>

definition drawEdge :: "Node list \<Rightarrow> AttentionPattern \<Rightarrow> svg_element list \<Rightarrow> svg_element list" where
  "drawEdge nodes pattern g =
     (let source = find (\<lambda>n. layer n = sourceLayer pattern \<and> token n = sourceToken pattern) nodes;
          target = find (\<lambda>n. layer n = destLayer pattern \<and> token n = destToken pattern) nodes
      in case source of
           None \<Rightarrow> g
         | Some s \<Rightarrow>
             (case target of
                None \<Rightarrow> g
              | Some t \<Rightarrow> g @ [Line (x s) (y s) (x t) (y t) ''#3B82F6''
                                  (weight pattern * 2) (weight pattern)]))"

fun drawEdges :: "Node list \<Rightarrow> AttentionPattern list \<Rightarrow> svg_element list \<Rightarrow> svg_element list" where
  "drawEdges nodes [] g = g"
| "drawEdges nodes (pattern # patterns) g = drawEdges nodes patterns (drawEdge nodes pattern g)"

text \<open>
  The method. It returns at once when the state has no data or the reference has no
  element. Otherwise \<open>selectAll("*").remove()\<close> leaves the SVG element without children,
  \<open>append("g")\<close> gives it the group as its only child, and everything else is appended
  to the group.
\<close>

definition renderGraph :: "D3AttentionGraph \<Rightarrow> D3AttentionGraph" where
  "renderGraph this =
     (case data (state this) of
        None \<Rightarrow> this
      | Some d \<Rightarrow>
          (case svgRef this of
             None \<Rightarrow> this
           | Some previous \<Rightarrow>
               (let cleared = [];
                    nodes = createNodes d (width (state this)) (height (state this));
                    g = drawEdges nodes (attentionPatterns d)
                          (addLabels nodes (drawNodes nodes []))
                in this\<lparr>svgRef := Some (cleared @
                     [Group (''translate('' @ template_number margin_left @ '','' @
                               template_number margin_top @ '')'') g])\<rparr>)))"

subsection \<open>Notions used in the statements\<close>

text \<open>
  The node the loops push for layer \<open>l\<close> and token \<open>t\<close>, and the two scales of a dataset
  with the margins subtracted from the width and the height.
\<close>

definition gridNode ::
  "(real \<Rightarrow> real) \<Rightarrow> (real \<Rightarrow> real) \<Rightarrow> string list option \<Rightarrow> int \<Rightarrow> int \<Rightarrow> Node" where
  "gridNode xScale yScale toks l t =
     \<lparr>layer = l, token = t, x = xScale (of_int t), y = yScale (of_int l),
      label = (case toks of Some ts \<Rightarrow> array_get ts t | None \<Rightarrow> Str (''T'' @ template_number t))\<rparr>"

definition xScaleOf :: "GraphData \<Rightarrow> real \<Rightarrow> real \<Rightarrow> real" where
  "xScaleOf d w = scaleLinear (0, of_int (numTokens d - 1)) (0, w - 40)"

definition yScaleOf :: "GraphData \<Rightarrow> real \<Rightarrow> real \<Rightarrow> real" where
  "yScaleOf d h = scaleLinear (0, of_int (numLayers d - 1)) (0, h - 40)"

text \<open>
  A component whose state holds a dataset and whose reference is attached to an SVG
  element with the children \<open>previous\<close>.
\<close>

definition mounted :: "GraphData \<Rightarrow> real \<Rightarrow> real \<Rightarrow> svg_element list \<Rightarrow> D3AttentionGraph" where
  "mounted d w h previous =
     \<lparr>state = \<lparr>data = Some d, width = w, height = h\<rparr>, svgRef = Some previous\<rparr>"

text \<open>A dataset with the \<open>head\<close> of every attention pattern set to 0.\<close>

definition withoutHeads :: "GraphData \<Rightarrow> GraphData" where
  "withoutHeads d = d\<lparr>attentionPatterns := map (\<lambda>p. p\<lparr>head := 0\<rparr>) (attentionPatterns d)\<rparr>"

text \<open>The number a string of decimal digits denotes, read from the left.\<close>

fun decimal_value :: "string \<Rightarrow> nat \<Rightarrow> nat" where
  "decimal_value [] acc = acc"
| "decimal_value (c # cs) acc = decimal_value cs (10 * acc + (of_char c - 48))"

subsection \<open>Datasets of the examples\<close>

text \<open>
  The dataset of the end-to-end scenario (two layers, two tokens "The" and "cat", one
  pattern of weight 0.8 from (1, 1) to (0, 0)) and the frame it gives on a 300 by 200
  canvas; the same dataset with the head 7; and with two patterns, the first of which has
  \<open>sourceLayer = numLayers\<close>, the second the weight 0.5.
\<close>

definition exampleData :: GraphData where
  "exampleData =
     \<lparr>numLayers = 2, numTokens = 2, tokens = Some [''The'', ''cat''],
      attentionPatterns =
        [\<lparr>sourceLayer = 1, sourceToken = 1, destLayer = 0, destToken = 0,
          weight = 0.8, head = 0\<rparr>]\<rparr>"

definition exampleFrame :: "svg_element list" where
  "exampleFrame =
     [Group ''translate(20,20)''
       [Circle 0 0 5 ''#e5e7eb'', Circle 260 0 5 ''#e5e7eb'',
        Circle 0 160 5 ''#e5e7eb'', Circle 260 160 5 ''#e5e7eb'',
        Text 0 (- 10) ''middle'' ''12px'' ''L0-The'',
        Text 260 (- 10) ''middle'' ''12px'' ''L0-cat'',
        Text 0 150 ''middle'' ''12px'' ''L1-The'',
        Text 260 150 ''middle'' ''12px'' ''L1-cat'',
        Line 260 160 0 0 ''#3B82F6'' 1.6 0.8]]"

definition headSeven :: GraphData where
  "headSeven = exampleData\<lparr>attentionPatterns :=
     [\<lparr>sourceLayer = 1, sourceToken = 1, destLayer = 0, destToken = 0,
       weight = 0.8, head = 7\<rparr>]\<rparr>"

definition skipData :: GraphData where
  "skipData = exampleData\<lparr>attentionPatterns :=
     [\<lparr>sourceLayer = 2, sourceToken = 0, destLayer = 0, destToken = 0, weight = 1, head = 0\<rparr>,
      \<lparr>sourceLayer = 1, sourceToken = 1, destLayer = 0, destToken = 0, weight = 0.5, head = 3\<rparr>]\<rparr>"

text \<open>
  Grids with a single column, a single row and no row; a dataset without \<open>tokens\<close>; and
  one whose \<open>tokens\<close> has one entry for two token columns.
\<close>

definition singleColumn :: GraphData where
  "singleColumn = \<lparr>numLayers = 2, numTokens = 1, tokens = None, attentionPatterns = []\<rparr>"

definition singleRow :: GraphData where
  "singleRow =
     \<lparr>numLayers = 1, numTokens = 2, tokens = Some [''The'', ''cat''], attentionPatterns = []\<rparr>"

definition emptyGrid :: GraphData where
  "emptyGrid = \<lparr>numLayers = 0, numTokens = 2, tokens = None, attentionPatterns = []\<rparr>"

definition unlabelled :: GraphData where
  "unlabelled = \<lparr>numLayers = 2, numTokens = 2, tokens = None, attentionPatterns = []\<rparr>"

definition shortTokens :: GraphData where
  "shortTokens =
     \<lparr>numLayers = 2, numTokens = 2, tokens = Some [''The''], attentionPatterns = []\<rparr>"

section \<open>The loops and the lookup\<close>

lemma tokenLoop_eq:
  "tokenLoop xScale yScale toks nTokens l t nodes =
     nodes @ map (gridNode xScale yScale toks l) [t..nTokens - 1]"
proof (induction xScale yScale toks nTokens l t nodes rule: tokenLoop.induct)
  case (1 xScale yScale toks nTokens l t nodes)
  show ?case
  proof (cases "t < nTokens")
    case True
    then have "[t..nTokens - 1] = t # [t + 1..nTokens - 1]"
      by (simp add: upto_rec1)
    with True "1.IH" show ?thesis
      by (subst tokenLoop.simps) (simp add: gridNode_def)
  next
    case False
    then show ?thesis
      by (subst tokenLoop.simps) simp
  qed
qed

lemma layerLoop_eq:
  "layerLoop xScale yScale toks nLayers nTokens l nodes =
     nodes @ concat (map (\<lambda>k. map (gridNode xScale yScale toks k) [0..nTokens - 1]) [l..nLayers - 1])"
proof (induction xScale yScale toks nLayers nTokens l nodes rule: layerLoop.induct)
  case (1 xScale yScale toks nLayers nTokens l nodes)
  show ?case
  proof (cases "l < nLayers")
    case True
    then have "[l..nLayers - 1] = l # [l + 1..nLayers - 1]"
      by (simp add: upto_rec1)
    with True "1.IH" show ?thesis
      by (subst layerLoop.simps) (simp add: tokenLoop_eq)
  next
    case False
    then show ?thesis
      by (subst layerLoop.simps) simp
  qed
qed

lemma createNodes_grid:
  "createNodes d w h =
     concat (map (\<lambda>l. map (gridNode (xScaleOf d w) (yScaleOf d h) (tokens d) l) [0..numTokens d - 1])
       [0..numLayers d - 1])"
  by (simp add: createNodes_def layerLoop_eq xScaleOf_def yScaleOf_def
      margin_left_def margin_right_def margin_top_def margin_bottom_def)

lemma product_concat_map:
  "List.product ks ts = concat (map (\<lambda>k. map (Pair k) ts) ks)"
  by (induction ks) simp_all

lemma gridNode_sel [simp]:
  "layer (gridNode xs ys toks l t) = l"
  "token (gridNode xs ys toks l t) = t"
  "x (gridNode xs ys toks l t) = xs (of_int t)"
  "y (gridNode xs ys toks l t) = ys (of_int l)"
  "label (gridNode xs ys toks l t) =
     (case toks of Some ts \<Rightarrow> array_get ts t | None \<Rightarrow> Str (''T'' @ template_number t))"
  by (simp_all add: gridNode_def)

lemma createNodes_keys:
  "map (\<lambda>n. (layer n, token n)) (createNodes d w h) =
     List.product [0..numLayers d - 1] [0..numTokens d - 1]"
  by (simp add: createNodes_grid product_concat_map map_concat comp_def)

lemma in_createNodes:
  "n \<in> set (createNodes d w h) \<longleftrightarrow>
     (\<exists>l t. 0 \<le> l \<and> l < numLayers d \<and> 0 \<le> t \<and> t < numTokens d \<and>
        n = gridNode (xScaleOf d w) (yScaleOf d h) (tokens d) l t)"
proof -
  have "n \<in> set (createNodes d w h) \<longleftrightarrow>
          (\<exists>l \<in> {0..numLayers d - 1}. \<exists>t \<in> {0..numTokens d - 1}.
             n = gridNode (xScaleOf d w) (yScaleOf d h) (tokens d) l t)"
    unfolding createNodes_grid by (simp add: image_iff)
  also have "\<dots> \<longleftrightarrow>
          (\<exists>l t. 0 \<le> l \<and> l < numLayers d \<and> 0 \<le> t \<and> t < numTokens d \<and>
             n = gridNode (xScaleOf d w) (yScaleOf d h) (tokens d) l t)"
    unfolding Bex_def atLeastAtMost_iff by (metis zle_diff1_eq)
  finally show ?thesis .
qed

lemma find_unique:
  assumes "n \<in> set ns" and "P n" and "\<And>m. m \<in> set ns \<Longrightarrow> P m \<Longrightarrow> m = n"
  shows "find P ns = Some n"
  using assms
proof (induction ns)
  case Nil
  then show ?case by simp
next
  case (Cons a ns)
  show ?case
  proof (cases "P a")
    case True
    have "a \<in> set (a # ns)" by simp
    then have "a = n" using True by (rule Cons.prems(3))
    with True show ?thesis by simp
  next
    case False
    with Cons.prems(1,2) have inside: "n \<in> set ns" by auto
    have only: "\<And>m. m \<in> set ns \<Longrightarrow> P m \<Longrightarrow> m = n"
    proof -
      fix m
      assume "m \<in> set ns" and "P m"
      then have "m \<in> set (a # ns)" by simp
      then show "m = n" using \<open>P m\<close> by (rule Cons.prems(3))
    qed
    from inside Cons.prems(2) only have "find P ns = Some n"
      by (rule Cons.IH)
    with False show ?thesis by simp
  qed
qed

lemma find_createNodes_inside:
  assumes "0 \<le> l" "l < numLayers d" "0 \<le> t" "t < numTokens d"
  shows "find (\<lambda>n. layer n = l \<and> token n = t) (createNodes d w h) =
           Some (gridNode (xScaleOf d w) (yScaleOf d h) (tokens d) l t)"
proof (rule find_unique)
  show "gridNode (xScaleOf d w) (yScaleOf d h) (tokens d) l t \<in> set (createNodes d w h)"
    using assms unfolding in_createNodes by blast
  show "layer (gridNode (xScaleOf d w) (yScaleOf d h) (tokens d) l t) = l \<and>
        token (gridNode (xScaleOf d w) (yScaleOf d h) (tokens d) l t) = t"
    by simp
  fix m
  assume m: "m \<in> set (createNodes d w h)" and key: "layer m = l \<and> token m = t"
  from m obtain l' t' where m': "m = gridNode (xScaleOf d w) (yScaleOf d h) (tokens d) l' t'"
    unfolding in_createNodes by blast
  with key have "l' = l" and "t' = t"
    by simp_all
  with m' show "m = gridNode (xScaleOf d w) (yScaleOf d h) (tokens d) l t"
    by simp
qed

lemma find_createNodes_outside:
  assumes "\<not> (0 \<le> l \<and> l < numLayers d \<and> 0 \<le> t \<and> t < numTokens d)"
  shows "find (\<lambda>n. layer n = l \<and> token n = t) (createNodes d w h) = None"
proof -
  have "\<not> (\<exists>n. n \<in> set (createNodes d w h) \<and> layer n = l \<and> token n = t)"
  proof
    assume "\<exists>n. n \<in> set (createNodes d w h) \<and> layer n = l \<and> token n = t"
    then obtain n where n: "n \<in> set (createNodes d w h)" and key: "layer n = l" "token n = t"
      by blast
    from n obtain l' t' where
      "0 \<le> l'" "l' < numLayers d" "0 \<le> t'" "t' < numTokens d"
      "n = gridNode (xScaleOf d w) (yScaleOf d h) (tokens d) l' t'"
      unfolding in_createNodes by blast
    with key assms show False
      by simp
  qed
  then show ?thesis
    by (simp add: find_None_iff)
qed

lemma drawEdge_append: "drawEdge nodes p g = g @ drawEdge nodes p []"
  unfolding drawEdge_def Let_def by (simp split: option.split)

lemma drawEdges_append:
  "drawEdges nodes ps g = g @ concat (map (\<lambda>p. drawEdge nodes p []) ps)"
proof (induction ps arbitrary: g)
  case Nil
  show ?case by simp
next
  case (Cons p ps)
  have "drawEdges nodes (p # ps) g = drawEdges nodes ps (drawEdge nodes p g)"
    by simp
  also have "\<dots> = drawEdge nodes p g @ concat (map (\<lambda>p. drawEdge nodes p []) ps)"
    by (rule Cons.IH)
  also have "drawEdge nodes p g = g @ drawEdge nodes p []"
    by (rule drawEdge_append)
  finally show ?case by simp
qed

lemma template_margin [simp]:
  "template_number margin_left = ''20''" "template_number margin_top = ''20''"
  by (simp_all add: template_number_def margin_left_def margin_top_def digits.simps digit_def)

lemma renderGraph_attached:
  assumes "data (state this) = Some d" and "svgRef this = Some previous"
  shows "renderGraph this =
     this\<lparr>svgRef := Some [Group ''translate(20,20)''
       (map (\<lambda>n. Circle (x n) (y n) 5 ''#e5e7eb'') (createNodes d (width (state this)) (height (state this))) @
        map (\<lambda>n. Text (x n) (y n - 10) ''middle'' ''12px''
                   (''L'' @ template_number (layer n) @ ''-'' @ template_string (label n)))
          (createNodes d (width (state this)) (height (state this))) @
        concat (map (\<lambda>p. drawEdge (createNodes d (width (state this)) (height (state this))) p [])
          (attentionPatterns d)))]\<rparr>"
  using assms
  by (simp add: renderGraph_def Let_def drawEdges_append addLabels_def drawNodes_def)

lemma scaleLinear_degenerate: "scaleLinear (0, 0) (0, r) v = r / 2"
  by (simp add: scaleLinear_def bimap_def normalize_def interpolateNumber_def Let_def)

lemma scaleLinear_positive: "0 < k \<Longrightarrow> scaleLinear (0, k) (0, r) v = r * (v / k)"
  by (simp add: scaleLinear_def bimap_def normalize_def interpolateNumber_def Let_def)

lemma upto_0_1: "[0..1] = [0, 1]"
  by (simp add: upto.simps)

lemma length_createNodes:
  "length (createNodes d w h) = nat (numLayers d) * nat (numTokens d)"
proof -
  have "length (createNodes d w h) =
          length (map (\<lambda>n. (layer n, token n)) (createNodes d w h))"
    by simp
  also have "\<dots> = length (List.product [0..numLayers d - 1] [0..numTokens d - 1])"
    by (simp only: createNodes_keys)
  also have "\<dots> = nat (numLayers d) * nat (numTokens d)"
    by (simp add: length_product)
  finally show ?thesis .
qed

lemma createNodes_exampleData:
  "createNodes exampleData 300 200 =
     [\<lparr>layer = 0, token = 0, x = 0, y = 0, label = Str ''The''\<rparr>,
      \<lparr>layer = 0, token = 1, x = 260, y = 0, label = Str ''cat''\<rparr>,
      \<lparr>layer = 1, token = 0, x = 0, y = 160, label = Str ''The''\<rparr>,
      \<lparr>layer = 1, token = 1, x = 260, y = 160, label = Str ''cat''\<rparr>]"
  by (simp add: createNodes_grid exampleData_def gridNode_def xScaleOf_def yScaleOf_def
      scaleLinear_positive array_get_def upto_0_1)

lemma createNodes_patterns [simp]:
  "createNodes (d\<lparr>attentionPatterns := ps\<rparr>) w h = createNodes d w h"
  by (simp add: createNodes_def)

lemma drawEdge_resolved:
  assumes "find (\<lambda>n. layer n = sourceLayer p \<and> token n = sourceToken p) nodes = Some s"
    and "find (\<lambda>n. layer n = destLayer p \<and> token n = destToken p) nodes = Some t"
  shows "drawEdge nodes p g =
           g @ [Line (x s) (y s) (x t) (y t) ''#3B82F6'' (weight p * 2) (weight p)]"
  using assms by (simp add: drawEdge_def)

lemma drawEdge_unresolved:
  assumes "find (\<lambda>n. layer n = sourceLayer p \<and> token n = sourceToken p) nodes = None \<or>
           find (\<lambda>n. layer n = destLayer p \<and> token n = destToken p) nodes = None"
  shows "drawEdge nodes p g = g"
  using assms by (auto simp add: drawEdge_def split: option.splits)

lemma createNodes_skipData:
  "createNodes skipData 300 200 = createNodes exampleData 300 200"
  by (simp add: skipData_def)

lemma createNodes_singleColumn:
  "createNodes singleColumn 100 100 =
     [\<lparr>layer = 0, token = 0, x = 30, y = 0, label = Str ''T0''\<rparr>,
      \<lparr>layer = 1, token = 0, x = 30, y = 60, label = Str ''T0''\<rparr>]"
  by (simp add: createNodes_grid singleColumn_def gridNode_def xScaleOf_def yScaleOf_def
      scaleLinear_degenerate scaleLinear_positive
      upto_0_1 template_number_def digits.simps digit_def)

lemma createNodes_shortTokens:
  "createNodes shortTokens 100 100 =
     [\<lparr>layer = 0, token = 0, x = 0, y = 0, label = Str ''The''\<rparr>,
      \<lparr>layer = 0, token = 1, x = 60, y = 0, label = Undefined\<rparr>,
      \<lparr>layer = 1, token = 0, x = 0, y = 60, label = Str ''The''\<rparr>,
      \<lparr>layer = 1, token = 1, x = 60, y = 60, label = Undefined\<rparr>]"
  by (simp add: createNodes_grid shortTokens_def gridNode_def xScaleOf_def yScaleOf_def
      scaleLinear_positive upto_0_1 array_get_def)

lemma template_number_0: "template_number 0 = ''0''"
  by (simp add: template_number_def digits.simps digit_def)

lemma template_number_1: "template_number 1 = ''1''"
  by (simp add: template_number_def digits.simps digit_def)

lemma renderGraph_exampleData:
  "renderGraph (mounted exampleData 300 200 previous) = mounted exampleData 300 200 exampleFrame"
proof -
  have 1: "data (state (mounted exampleData 300 200 previous)) = Some exampleData"
    and 2: "svgRef (mounted exampleData 300 200 previous) = Some previous"
    by (simp_all add: mounted_def)
  have 3: "attentionPatterns exampleData =
    [\<lparr>sourceLayer = 1, sourceToken = 1, destLayer = 0, destToken = 0, weight = 0.8, head = 0\<rparr>]"
    by (simp add: exampleData_def)
  show ?thesis
    unfolding renderGraph_attached [OF 1 2]
    by (simp add: mounted_def createNodes_exampleData 3 drawEdge_def exampleFrame_def
        template_number_0 template_number_1 template_string_def)
qed

lemma renderGraph_detached:
  "data (state this) = None \<or> svgRef this = None \<Longrightarrow> renderGraph this = this"
  by (auto simp add: renderGraph_def split: option.splits)

lemma renderGraph_again:
  assumes "data (state this) = Some d" and "svgRef this = Some previous"
  shows "renderGraph (this\<lparr>svgRef := Some other\<rparr>) = renderGraph this"
proof -
  have "data (state (this\<lparr>svgRef := Some other\<rparr>)) = Some d"
    and "svgRef (this\<lparr>svgRef := Some other\<rparr>) = Some other"
    using assms by simp_all
  then show ?thesis
    unfolding renderGraph_attached [OF assms] by (simp add: renderGraph_attached)
qed

lemma map_constant_on:
  "\<forall>n \<in> set ns. f n = c \<Longrightarrow> map f ns = replicate (length ns) c"
  by (induction ns) simp_all

lemma createNodes_empty:
  assumes "numLayers d \<le> 0 \<or> numTokens d \<le> 0"
  shows "createNodes d w h = []"
proof -
  from assms have "length (createNodes d w h) = 0"
    by (auto simp add: length_createNodes)
  then show ?thesis by simp
qed

lemma createNodes_unlabelled:
  "createNodes unlabelled 300 200 =
     [\<lparr>layer = 0, token = 0, x = 0, y = 0, label = Str ''T0''\<rparr>,
      \<lparr>layer = 0, token = 1, x = 260, y = 0, label = Str ''T1''\<rparr>,
      \<lparr>layer = 1, token = 0, x = 0, y = 160, label = Str ''T0''\<rparr>,
      \<lparr>layer = 1, token = 1, x = 260, y = 160, label = Str ''T1''\<rparr>]"
  by (simp add: createNodes_grid unlabelled_def gridNode_def xScaleOf_def yScaleOf_def
      scaleLinear_positive upto_0_1 template_number_0 template_number_1)

lemma drawEdge_head [simp]: "drawEdge nodes (p\<lparr>head := k\<rparr>) g = drawEdge nodes p g"
  by (simp add: drawEdge_def split: option.splits)

lemma renderGraph_withoutHeads:
  "svgRef (renderGraph \<lparr>state = \<lparr>data = Some (withoutHeads d), width = w, height = h\<rparr>,
                        svgRef = surface\<rparr>) =
   svgRef (renderGraph \<lparr>state = \<lparr>data = Some d, width = w, height = h\<rparr>, svgRef = surface\<rparr>)"
proof (cases surface)
  case None
  then show ?thesis
    by (simp add: renderGraph_detached)
next
  case (Some previous)
  have "createNodes (withoutHeads d) w h = createNodes d w h"
    by (simp add: withoutHeads_def)
  moreover have "attentionPatterns (withoutHeads d) =
      map (\<lambda>p. p\<lparr>head := 0\<rparr>) (attentionPatterns d)"
    by (simp add: withoutHeads_def)
  ultimately show ?thesis
    unfolding Some
    by (simp add: renderGraph_attached [of _ "withoutHeads d" previous]
        renderGraph_attached [of _ d previous] comp_def)
qed

lemma decimal_value_append:
  "decimal_value (cs @ ds) acc = decimal_value ds (decimal_value cs acc)"
  by (induction cs arbitrary: acc) simp_all

lemma digit_value: "n < 10 \<Longrightarrow> of_char (digit n) - 48 = n"
proof -
  assume "n < 10"
  then have "n \<in> {0, 1, 2, 3, 4, 5, 6, 7, 8, 9}"
    by auto
  then show ?thesis
    by (auto simp add: digit_def)
qed

lemma decimal_value_digits: "decimal_value (digits n) 0 = n"
proof (induction n rule: digits.induct)
  case (1 n)
  show ?case
  proof (cases "n < 10")
    case True
    then show ?thesis
      by (subst digits.simps) (simp add: digit_value)
  next
    case False
    then have "decimal_value (digits (n div 10)) 0 = n div 10"
      by (rule "1.IH")
    with False show ?thesis
      by (subst digits.simps) (simp add: decimal_value_append digit_value)
  qed
qed

section \<open>The claims\<close>

text \<open>
  C1. For a dataset with \<open>numLayers \<ge> 1\<close> and \<open>numTokens \<ge> 1\<close>, the array \<open>nodes\<close> of a
  render pass holds the pairs (layer, token) of the cartesian product
  \<open>[0, numLayers) \<times> [0, numTokens)\<close> in row-major order: \<open>numLayers * numTokens\<close> nodes,
  no pair twice. It is built anew in every pass: whatever the SVG element held before,
  the pass draws the circles and texts of exactly these nodes.
\<close>

theorem createNodes_cartesian_product:
  assumes "1 \<le> numLayers d" and "1 \<le> numTokens d"
  shows "map (\<lambda>n. (layer n, token n)) (createNodes d w h) =
           List.product [0..numLayers d - 1] [0..numTokens d - 1] \<and>
         int (length (createNodes d w h)) = numLayers d * numTokens d \<and>
         distinct (map (\<lambda>n. (layer n, token n)) (createNodes d w h)) \<and>
         set (map (\<lambda>n. (layer n, token n)) (createNodes d w h)) =
           {0..<numLayers d} \<times> {0..<numTokens d} \<and>
         (\<forall>previous. renderGraph (mounted d w h previous) =
            mounted d w h
              [Group ''translate(20,20)''
                (map (\<lambda>n. Circle (x n) (y n) 5 ''#e5e7eb'') (createNodes d w h) @
                 map (\<lambda>n. Text (x n) (y n - 10) ''middle'' ''12px''
                            (''L'' @ template_number (layer n) @ ''-'' @ template_string (label n)))
                   (createNodes d w h) @
                 concat (map (\<lambda>p. drawEdge (createNodes d w h) p []) (attentionPatterns d)))])"
proof (intro conjI allI)
  show "map (\<lambda>n. (layer n, token n)) (createNodes d w h) =
          List.product [0..numLayers d - 1] [0..numTokens d - 1]"
    by (rule createNodes_keys)
  show "int (length (createNodes d w h)) = numLayers d * numTokens d"
    using assms by (simp add: length_createNodes)
  show "distinct (map (\<lambda>n. (layer n, token n)) (createNodes d w h))"
    by (simp only: createNodes_keys) (simp add: distinct_product)
  have "set (List.product [0..numLayers d - 1] [0..numTokens d - 1]) =
          {0..<numLayers d} \<times> {0..<numTokens d}"
    by auto
  then show "set (map (\<lambda>n. (layer n, token n)) (createNodes d w h)) =
          {0..<numLayers d} \<times> {0..<numTokens d}"
    by (simp only: createNodes_keys)
  fix previous
  show "renderGraph (mounted d w h previous) =
          mounted d w h
            [Group ''translate(20,20)''
              (map (\<lambda>n. Circle (x n) (y n) 5 ''#e5e7eb'') (createNodes d w h) @
               map (\<lambda>n. Text (x n) (y n - 10) ''middle'' ''12px''
                          (''L'' @ template_number (layer n) @ ''-'' @ template_string (label n)))
                 (createNodes d w h) @
               concat (map (\<lambda>p. drawEdge (createNodes d w h) p []) (attentionPatterns d)))]"
    by (simp add: renderGraph_attached [of _ d previous] mounted_def)
qed

theorem createNodes_cartesian_product_witness:
  "1 \<le> numLayers exampleData \<and> 1 \<le> numTokens exampleData \<and>
   map (\<lambda>n. (layer n, token n)) (createNodes exampleData 300 200) =
     [(0, 0), (0, 1), (1, 0), (1, 1)] \<and>
   int (length (createNodes exampleData 300 200)) = 4 \<and>
   distinct (map (\<lambda>n. (layer n, token n)) (createNodes exampleData 300 200))"
proof -
  have layers: "1 \<le> numLayers exampleData" and toks: "1 \<le> numTokens exampleData"
    by (simp_all add: exampleData_def)
  from createNodes_cartesian_product [OF layers toks, of 300 200] layers toks
  show ?thesis
    by (simp add: exampleData_def upto_0_1)
qed

text \<open>
  C2. An attention pattern whose source pair or destination pair lies outside
  \<open>[0, numLayers) \<times> [0, numTokens)\<close> has an endpoint that \<open>find\<close> does not find, and it adds
  nothing to the group, wherever it stands in \<open>attentionPatterns\<close>. The pass still returns, with the circle and the text of every node
  and the lines of the other patterns: every other pattern whose two endpoints are found
  has its line there.
\<close>

theorem unresolved_edge_skipped:
  assumes "data (state this) = Some d" and "svgRef this = Some previous"
    and "attentionPatterns d = before @ p # after"
    and "\<not> (0 \<le> sourceLayer p \<and> sourceLayer p < numLayers d \<and>
             0 \<le> sourceToken p \<and> sourceToken p < numTokens d) \<or>
         \<not> (0 \<le> destLayer p \<and> destLayer p < numLayers d \<and>
             0 \<le> destToken p \<and> destToken p < numTokens d)"
    and "nodes = createNodes d (width (state this)) (height (state this))"
    and "lines = concat (map (\<lambda>q. drawEdge nodes q []) (before @ after))"
  shows "(find (\<lambda>n. layer n = sourceLayer p \<and> token n = sourceToken p) nodes = None \<or>
          find (\<lambda>n. layer n = destLayer p \<and> token n = destToken p) nodes = None) \<and>
         drawEdge nodes p g = g \<and>
         renderGraph this =
           this\<lparr>svgRef := Some [Group ''translate(20,20)''
             (map (\<lambda>n. Circle (x n) (y n) 5 ''#e5e7eb'') nodes @
              map (\<lambda>n. Text (x n) (y n - 10) ''middle'' ''12px''
                         (''L'' @ template_number (layer n) @ ''-'' @ template_string (label n)))
                nodes @
              lines)]\<rparr> \<and>
         (\<forall>q \<in> set (before @ after). \<forall>s t.
            find (\<lambda>n. layer n = sourceLayer q \<and> token n = sourceToken q) nodes = Some s \<longrightarrow>
            find (\<lambda>n. layer n = destLayer q \<and> token n = destToken q) nodes = Some t \<longrightarrow>
            Line (x s) (y s) (x t) (y t) ''#3B82F6'' (weight q * 2) (weight q) \<in> set lines)"
proof (intro conjI ballI allI impI)
  show unresolved:
    "find (\<lambda>n. layer n = sourceLayer p \<and> token n = sourceToken p) nodes = None \<or>
     find (\<lambda>n. layer n = destLayer p \<and> token n = destToken p) nodes = None"
    using assms(4) unfolding assms(5) by (auto simp add: find_createNodes_outside)
  then show skipped: "drawEdge nodes p g = g" for g
    by (rule drawEdge_unresolved)
  have "concat (map (\<lambda>q. drawEdge nodes q []) (attentionPatterns d)) = lines"
    unfolding assms(3,6) by (simp add: skipped)
  then show "renderGraph this =
           this\<lparr>svgRef := Some [Group ''translate(20,20)''
             (map (\<lambda>n. Circle (x n) (y n) 5 ''#e5e7eb'') nodes @
              map (\<lambda>n. Text (x n) (y n - 10) ''middle'' ''12px''
                         (''L'' @ template_number (layer n) @ ''-'' @ template_string (label n)))
                nodes @
              lines)]\<rparr>"
    unfolding assms(5) by (simp add: renderGraph_attached [OF assms(1,2)])
next
  fix q s t
  assume q: "q \<in> set (before @ after)"
    and s: "find (\<lambda>n. layer n = sourceLayer q \<and> token n = sourceToken q) nodes = Some s"
    and t: "find (\<lambda>n. layer n = destLayer q \<and> token n = destToken q) nodes = Some t"
  from s t have "drawEdge nodes q [] =
      [] @ [Line (x s) (y s) (x t) (y t) ''#3B82F6'' (weight q * 2) (weight q)]"
    by (rule drawEdge_resolved)
  with q show "Line (x s) (y s) (x t) (y t) ''#3B82F6'' (weight q * 2) (weight q) \<in> set lines"
    unfolding assms(6) by force
qed

theorem unresolved_edge_skipped_witness:
  "sourceLayer \<lparr>sourceLayer = 2, sourceToken = 0, destLayer = 0, destToken = 0, weight = 1, head = 0\<rparr>
     = numLayers skipData \<and>
   renderGraph (mounted skipData 300 200 []) =
     mounted skipData 300 200
       [Group ''translate(20,20)''
         [Circle 0 0 5 ''#e5e7eb'', Circle 260 0 5 ''#e5e7eb'',
          Circle 0 160 5 ''#e5e7eb'', Circle 260 160 5 ''#e5e7eb'',
          Text 0 (- 10) ''middle'' ''12px'' ''L0-The'',
          Text 260 (- 10) ''middle'' ''12px'' ''L0-cat'',
          Text 0 150 ''middle'' ''12px'' ''L1-The'',
          Text 260 150 ''middle'' ''12px'' ''L1-cat'',
          Line 260 160 0 0 ''#3B82F6'' 1 (1 / 2)]]"
proof -
  let ?p = "\<lparr>sourceLayer = 2, sourceToken = 0, destLayer = 0, destToken = 0, weight = 1, head = 0\<rparr>"
  let ?q = "\<lparr>sourceLayer = 1, sourceToken = 1, destLayer = 0, destToken = 0, weight = 1 / 2, head = 3\<rparr>"
  let ?c = "mounted skipData 300 200 []"
  let ?nodes = "createNodes skipData (width (state ?c)) (height (state ?c))"
  have 1: "data (state ?c) = Some skipData" and 2: "svgRef ?c = Some []"
    by (simp_all add: mounted_def)
  have 3: "attentionPatterns skipData = [] @ ?p # [?q]"
    by (simp add: skipData_def)
  have 4: "\<not> (0 \<le> sourceLayer ?p \<and> sourceLayer ?p < numLayers skipData \<and>
             0 \<le> sourceToken ?p \<and> sourceToken ?p < numTokens skipData) \<or>
         \<not> (0 \<le> destLayer ?p \<and> destLayer ?p < numLayers skipData \<and>
             0 \<le> destToken ?p \<and> destToken ?p < numTokens skipData)"
    by (simp add: skipData_def exampleData_def)
  have nodes: "?nodes = createNodes exampleData 300 200"
    by (simp add: mounted_def skipData_def)
  from unresolved_edge_skipped [OF 1 2 3 4 refl refl, of "[]"]
  show ?thesis
    unfolding nodes createNodes_exampleData
    by (simp add: mounted_def skipData_def exampleData_def drawEdge_def
        template_number_def template_string_def digits.simps digit_def)
qed

text \<open>
  C3. A pattern whose two endpoints are found gets one line from the source node to the
  target node, with stroke width \<open>weight * 2\<close> and opacity \<open>weight\<close>, neither clamped; and
  every line of the rendered group has the stroke width and opacity of some pattern of
  the dataset in this way.
\<close>

theorem resolved_edge_encoding:
  assumes "data (state this) = Some d" and "svgRef this = Some previous"
    and "p \<in> set (attentionPatterns d)"
    and "nodes = createNodes d (width (state this)) (height (state this))"
    and "find (\<lambda>n. layer n = sourceLayer p \<and> token n = sourceToken p) nodes = Some s"
    and "find (\<lambda>n. layer n = destLayer p \<and> token n = destToken p) nodes = Some t"
  shows "drawEdge nodes p g =
           g @ [Line (x s) (y s) (x t) (y t) ''#3B82F6'' (weight p * 2) (weight p)] \<and>
         (\<exists>children. svgRef (renderGraph this) = Some [Group ''translate(20,20)'' children] \<and>
            Line (x s) (y s) (x t) (y t) ''#3B82F6'' (weight p * 2) (weight p) \<in> set children \<and>
            (\<forall>x1 y1 x2 y2 stroke stroke_width opacity.
               Line x1 y1 x2 y2 stroke stroke_width opacity \<in> set children \<longrightarrow>
               (\<exists>q \<in> set (attentionPatterns d).
                  stroke_width = weight q * 2 \<and> opacity = weight q)))"
proof (intro conjI)
  show drawn: "drawEdge nodes p g =
           g @ [Line (x s) (y s) (x t) (y t) ''#3B82F6'' (weight p * 2) (weight p)]" for g
    using assms(5,6) by (rule drawEdge_resolved)
  let ?children = "map (\<lambda>n. Circle (x n) (y n) 5 ''#e5e7eb'') nodes @
              map (\<lambda>n. Text (x n) (y n - 10) ''middle'' ''12px''
                         (''L'' @ template_number (layer n) @ ''-'' @ template_string (label n)))
                nodes @
              concat (map (\<lambda>q. drawEdge nodes q []) (attentionPatterns d))"
  have surface: "svgRef (renderGraph this) = Some [Group ''translate(20,20)'' ?children]"
    unfolding assms(4) by (simp add: renderGraph_attached [OF assms(1,2)])
  have member: "Line (x s) (y s) (x t) (y t) ''#3B82F6'' (weight p * 2) (weight p) \<in> set ?children"
    using assms(3) drawn [of "[]"] by force
  have only: "\<exists>q \<in> set (attentionPatterns d). stroke_width = weight q * 2 \<and> opacity = weight q"
    if "Line x1 y1 x2 y2 stroke stroke_width opacity \<in> set ?children"
    for x1 y1 x2 y2 stroke stroke_width opacity
  proof -
    from that obtain q where q: "q \<in> set (attentionPatterns d)"
      and line: "Line x1 y1 x2 y2 stroke stroke_width opacity \<in> set (drawEdge nodes q [])"
      by auto
    from line have "stroke_width = weight q * 2 \<and> opacity = weight q"
      by (auto simp add: drawEdge_def split: option.splits)
    with q show ?thesis by blast
  qed
  from surface member only
  show "\<exists>children. svgRef (renderGraph this) = Some [Group ''translate(20,20)'' children] \<and>
            Line (x s) (y s) (x t) (y t) ''#3B82F6'' (weight p * 2) (weight p) \<in> set children \<and>
            (\<forall>x1 y1 x2 y2 stroke stroke_width opacity.
               Line x1 y1 x2 y2 stroke stroke_width opacity \<in> set children \<longrightarrow>
               (\<exists>q \<in> set (attentionPatterns d).
                  stroke_width = weight q * 2 \<and> opacity = weight q))"
    by blast
qed

theorem resolved_edge_encoding_witness:
  "weight \<lparr>sourceLayer = 1, sourceToken = 1, destLayer = 0, destToken = 0, weight = 0.5, head = 3\<rparr>
     = 0.5 \<and>
   \<lparr>sourceLayer = 1, sourceToken = 1, destLayer = 0, destToken = 0, weight = 0.5, head = 3\<rparr>
     \<in> set (attentionPatterns skipData) \<and>
   find (\<lambda>n. layer n = 1 \<and> token n = 1) (createNodes skipData 300 200) =
     Some \<lparr>layer = 1, token = 1, x = 260, y = 160, label = Str ''cat''\<rparr> \<and>
   find (\<lambda>n. layer n = 0 \<and> token n = 0) (createNodes skipData 300 200) =
     Some \<lparr>layer = 0, token = 0, x = 0, y = 0, label = Str ''The''\<rparr> \<and>
   drawEdge (createNodes skipData 300 200)
     \<lparr>sourceLayer = 1, sourceToken = 1, destLayer = 0, destToken = 0, weight = 0.5, head = 3\<rparr> [] =
     [Line 260 160 0 0 ''#3B82F6'' 1.0 0.5]"
proof -
  let ?q = "\<lparr>sourceLayer = 1, sourceToken = 1, destLayer = 0, destToken = 0, weight = 0.5, head = 3\<rparr>"
  let ?c = "mounted skipData 300 200 []"
  have 1: "data (state ?c) = Some skipData" and 2: "svgRef ?c = Some []"
    by (simp_all add: mounted_def)
  have 3: "?q \<in> set (attentionPatterns skipData)"
    by (simp add: skipData_def)
  have 4: "createNodes skipData 300 200 =
             createNodes skipData (width (state ?c)) (height (state ?c))"
    by (simp add: mounted_def)
  have 5: "find (\<lambda>n. layer n = sourceLayer ?q \<and> token n = sourceToken ?q)
             (createNodes skipData 300 200) =
           Some \<lparr>layer = 1, token = 1, x = 260, y = 160, label = Str ''cat''\<rparr>"
    by (simp add: createNodes_skipData createNodes_exampleData)
  have 6: "find (\<lambda>n. layer n = destLayer ?q \<and> token n = destToken ?q)
             (createNodes skipData 300 200) =
           Some \<lparr>layer = 0, token = 0, x = 0, y = 0, label = Str ''The''\<rparr>"
    by (simp add: createNodes_skipData createNodes_exampleData)
  from resolved_edge_encoding [OF 1 2 3 4 5 6, of "[]"] 3 5 6
  show ?thesis
    by simp
qed

text \<open>
  C4, as stated, fails: with \<open>numTokens = 1\<close> and width 100 the nodes are at \<open>x = 30\<close>, the
  middle of the range \<open>[0, 60]\<close>, not at its start.
\<close>

theorem single_token_x_counterexample:
  "numTokens singleColumn = 1 \<and> (0 :: real) < 100 \<and>
   map x (createNodes singleColumn 100 100) = [30, 30] \<and>
   map x (createNodes singleColumn 100 100) \<noteq> [0, 0]"
  by (simp add: createNodes_singleColumn) (simp add: singleColumn_def)

text \<open>
  C4, amended. With \<open>numTokens = 1\<close> the token scale is the constant \<open>(width - 40) / 2\<close>, the
  midpoint of its range: \<open>normalize\<close> takes the branch that does not divide. So every node
  has \<open>x = (width - 40) / 2\<close>, for every width; and with \<open>numLayers = 1\<close> every node has
  \<open>y = (height - 40) / 2\<close>.
\<close>

theorem degenerate_scale_midpoint:
  "(numTokens d = 1 \<longrightarrow>
      scaleLinear (0, of_int (numTokens d - 1)) (0, w - 40) = (\<lambda>v. (w - 40) / 2) \<and>
      (\<forall>n \<in> set (createNodes d w h). x n = (w - 40) / 2)) \<and>
   (numLayers d = 1 \<longrightarrow>
      scaleLinear (0, of_int (numLayers d - 1)) (0, h - 40) = (\<lambda>v. (h - 40) / 2) \<and>
      (\<forall>n \<in> set (createNodes d w h). y n = (h - 40) / 2))"
proof (intro conjI impI ballI)
  assume one: "numTokens d = 1"
  then show scale: "scaleLinear (0, of_int (numTokens d - 1)) (0, w - 40) = (\<lambda>v. (w - 40) / 2)"
    by (simp add: fun_eq_iff scaleLinear_degenerate)
  fix n
  assume "n \<in> set (createNodes d w h)"
  then obtain l t where "n = gridNode (xScaleOf d w) (yScaleOf d h) (tokens d) l t"
    unfolding in_createNodes by blast
  with scale show "x n = (w - 40) / 2"
    by (simp add: xScaleOf_def)
next
  assume one: "numLayers d = 1"
  then show scale: "scaleLinear (0, of_int (numLayers d - 1)) (0, h - 40) = (\<lambda>v. (h - 40) / 2)"
    by (simp add: fun_eq_iff scaleLinear_degenerate)
  fix n
  assume "n \<in> set (createNodes d w h)"
  then obtain l t where "n = gridNode (xScaleOf d w) (yScaleOf d h) (tokens d) l t"
    unfolding in_createNodes by blast
  with scale show "y n = (h - 40) / 2"
    by (simp add: yScaleOf_def)
qed

theorem degenerate_scale_midpoint_witness:
  "numTokens singleColumn = 1 \<and> numLayers singleRow = 1 \<and>
   map x (createNodes singleColumn 100 100) = [30, 30] \<and>
   map y (createNodes singleRow 300 200) = [80, 80]"
proof -
  have column: "numTokens singleColumn = 1" and row: "numLayers singleRow = 1"
    by (simp_all add: singleColumn_def singleRow_def)
  have size: "length (createNodes singleColumn 100 100) = Suc (Suc 0)"
    "length (createNodes singleRow 300 200) = Suc (Suc 0)"
    by (simp_all add: length_createNodes singleColumn_def singleRow_def)
  from degenerate_scale_midpoint [of singleColumn 100 100] column
  have "\<forall>n \<in> set (createNodes singleColumn 100 100). x n = 30"
    by simp
  then have xs: "map x (createNodes singleColumn 100 100) =
      replicate (length (createNodes singleColumn 100 100)) 30"
    by (rule map_constant_on)
  from degenerate_scale_midpoint [of singleRow 300 200] row
  have "\<forall>n \<in> set (createNodes singleRow 300 200). y n = 80"
    by simp
  then have ys: "map y (createNodes singleRow 300 200) =
      replicate (length (createNodes singleRow 300 200)) 80"
    by (rule map_constant_on)
  from xs ys column row show ?thesis
    by (simp add: size)
qed

text \<open>
  C5, as stated, fails: with \<open>tokens = ["The"]\<close>, two layers and \<open>numTokens = 2\<close> the pass
  returns and the SVG element holds four circles and four texts, the texts of the second
  column being "L0-undefined" and "L1-undefined".
\<close>

theorem short_tokens_counterexample:
  "tokens shortTokens = Some [''The''] \<and>
   int (length [''The'']) < numTokens shortTokens \<and>
   renderGraph (mounted shortTokens 100 100 []) =
     mounted shortTokens 100 100
       [Group ''translate(20,20)''
         [Circle 0 0 5 ''#e5e7eb'', Circle 60 0 5 ''#e5e7eb'',
          Circle 0 60 5 ''#e5e7eb'', Circle 60 60 5 ''#e5e7eb'',
          Text 0 (- 10) ''middle'' ''12px'' ''L0-The'',
          Text 60 (- 10) ''middle'' ''12px'' ''L0-undefined'',
          Text 0 50 ''middle'' ''12px'' ''L1-The'',
          Text 60 50 ''middle'' ''12px'' ''L1-undefined'']] \<and>
   svgRef (renderGraph (mounted shortTokens 100 100 [])) \<noteq> svgRef (mounted shortTokens 100 100 []) \<and>
   svgRef (renderGraph (mounted shortTokens 100 100 [])) \<noteq> Some []"
proof -
  have 1: "data (state (mounted shortTokens 100 100 [])) = Some shortTokens"
    and 2: "svgRef (mounted shortTokens 100 100 []) = Some []"
    by (simp_all add: mounted_def)
  have "renderGraph (mounted shortTokens 100 100 []) =
     mounted shortTokens 100 100
       [Group ''translate(20,20)''
         [Circle 0 0 5 ''#e5e7eb'', Circle 60 0 5 ''#e5e7eb'',
          Circle 0 60 5 ''#e5e7eb'', Circle 60 60 5 ''#e5e7eb'',
          Text 0 (- 10) ''middle'' ''12px'' ''L0-The'',
          Text 60 (- 10) ''middle'' ''12px'' ''L0-undefined'',
          Text 0 50 ''middle'' ''12px'' ''L1-The'',
          Text 60 50 ''middle'' ''12px'' ''L1-undefined'']]"
    unfolding renderGraph_attached [OF 1 2]
    by (simp add: mounted_def createNodes_shortTokens template_number_0 template_number_1
        template_string_def)
      (simp add: shortTokens_def)
  then show ?thesis
    by (simp add: mounted_def) (simp add: shortTokens_def)
qed

text \<open>
  C5, amended. When \<open>tokens\<close> is present and shorter than \<open>numTokens\<close>, nothing fails: the
  pass returns with every node of the grid drawn. A node whose token index is below the
  length of \<open>tokens\<close> has that token as its label; the others have the label \<open>undefined\<close>
  and the text "L<layer>-undefined".
\<close>

theorem short_tokens_undefined_labels:
  assumes "data (state this) = Some d" and "svgRef this = Some previous"
    and "tokens d = Some ts" and "int (length ts) < numTokens d"
    and "nodes = createNodes d (width (state this)) (height (state this))"
  shows "(\<forall>n \<in> set nodes.
            label n = (if token n < int (length ts) then Str (ts ! nat (token n)) else Undefined)) \<and>
         renderGraph this =
           this\<lparr>svgRef := Some [Group ''translate(20,20)''
             (map (\<lambda>n. Circle (x n) (y n) 5 ''#e5e7eb'') nodes @
              map (\<lambda>n. Text (x n) (y n - 10) ''middle'' ''12px''
                         (''L'' @ template_number (layer n) @ ''-'' @
                          (if token n < int (length ts) then ts ! nat (token n)
                           else ''undefined'')))
                nodes @
              concat (map (\<lambda>p. drawEdge nodes p []) (attentionPatterns d)))]\<rparr> \<and>
         int (length nodes) = (if numLayers d < 0 then 0 else numLayers d * numTokens d)"
proof (intro conjI ballI)
  show labels: "label n = (if token n < int (length ts) then Str (ts ! nat (token n)) else Undefined)"
    if "n \<in> set nodes" for n
  proof -
    from that obtain l t where "0 \<le> t"
      and "n = gridNode (xScaleOf d (width (state this))) (yScaleOf d (height (state this)))
                 (tokens d) l t"
      unfolding assms(5) in_createNodes by blast
    then show ?thesis
      by (simp add: assms(3) array_get_def)
  qed
  have "map (\<lambda>n. Text (x n) (y n - 10) ''middle'' ''12px''
                (''L'' @ template_number (layer n) @ ''-'' @ template_string (label n))) nodes =
        map (\<lambda>n. Text (x n) (y n - 10) ''middle'' ''12px''
                (''L'' @ template_number (layer n) @ ''-'' @
                   (if token n < int (length ts) then ts ! nat (token n) else ''undefined''))) nodes"
    by (rule map_cong) (simp_all add: labels template_string_def)
  then show "renderGraph this =
           this\<lparr>svgRef := Some [Group ''translate(20,20)''
             (map (\<lambda>n. Circle (x n) (y n) 5 ''#e5e7eb'') nodes @
              map (\<lambda>n. Text (x n) (y n - 10) ''middle'' ''12px''
                         (''L'' @ template_number (layer n) @ ''-'' @
                          (if token n < int (length ts) then ts ! nat (token n)
                           else ''undefined'')))
                nodes @
              concat (map (\<lambda>p. drawEdge nodes p []) (attentionPatterns d)))]\<rparr>"
    unfolding renderGraph_attached [OF assms(1,2)] assms(5) [symmetric] by simp
  show "int (length nodes) = (if numLayers d < 0 then 0 else numLayers d * numTokens d)"
    using assms(4) unfolding assms(5) by (simp add: length_createNodes)
qed

theorem short_tokens_undefined_labels_witness:
  "tokens shortTokens = Some [''The''] \<and> int (length [''The'']) < numTokens shortTokens \<and>
   map label (createNodes shortTokens 100 100) =
     [Str ''The'', Undefined, Str ''The'', Undefined] \<and>
   svgRef (renderGraph (mounted shortTokens 100 100 [])) =
     Some [Group ''translate(20,20)''
         [Circle 0 0 5 ''#e5e7eb'', Circle 60 0 5 ''#e5e7eb'',
          Circle 0 60 5 ''#e5e7eb'', Circle 60 60 5 ''#e5e7eb'',
          Text 0 (- 10) ''middle'' ''12px'' ''L0-The'',
          Text 60 (- 10) ''middle'' ''12px'' ''L0-undefined'',
          Text 0 50 ''middle'' ''12px'' ''L1-The'',
          Text 60 50 ''middle'' ''12px'' ''L1-undefined'']]"
proof -
  let ?c = "mounted shortTokens 100 100 []"
  have 1: "data (state ?c) = Some shortTokens" and 2: "svgRef ?c = Some []"
    by (simp_all add: mounted_def)
  have 3: "tokens shortTokens = Some [''The'']"
    and 4: "int (length [''The'']) < numTokens shortTokens"
    by (simp_all add: shortTokens_def)
  have 5: "createNodes shortTokens 100 100 =
             createNodes shortTokens (width (state ?c)) (height (state ?c))"
    by (simp add: mounted_def)
  have 6: "attentionPatterns shortTokens = []"
    by (simp add: shortTokens_def)
  from short_tokens_undefined_labels [OF 1 2 3 4 5] 3 4
  show ?thesis
    by (simp add: createNodes_shortTokens template_number_0 template_number_1 6)
qed

text \<open>
  C6. Rendering twice leaves the component as rendering once does; and when the state has
  data and the SVG element is attached, the result does not depend on what the element
  held before, since each pass starts by removing it.
\<close>

theorem renderGraph_idempotent:
  "renderGraph (renderGraph this) = renderGraph this \<and>
   (\<forall>d previous other. data (state this) = Some d \<longrightarrow> svgRef this = Some previous \<longrightarrow>
      renderGraph (this\<lparr>svgRef := Some other\<rparr>) = renderGraph this)"
proof (intro conjI allI impI)
  show "renderGraph (renderGraph this) = renderGraph this"
  proof (cases "data (state this) = None \<or> svgRef this = None")
    case True
    then show ?thesis by (simp add: renderGraph_detached)
  next
    case False
    then obtain d previous where attached: "data (state this) = Some d" "svgRef this = Some previous"
      by auto
    then obtain frame where frame: "renderGraph this = this\<lparr>svgRef := Some frame\<rparr>"
      using renderGraph_attached by blast
    from attached have "renderGraph (this\<lparr>svgRef := Some frame\<rparr>) = renderGraph this"
      by (rule renderGraph_again)
    then show ?thesis
      by (simp add: frame)
  qed
next
  fix d previous other
  assume "data (state this) = Some d" and "svgRef this = Some previous"
  then show "renderGraph (this\<lparr>svgRef := Some other\<rparr>) = renderGraph this"
    by (rule renderGraph_again)
qed

theorem renderGraph_idempotent_witness:
  "data (state (mounted exampleData 300 200 [])) = Some exampleData \<and>
   svgRef (mounted exampleData 300 200 []) = Some [] \<and>
   renderGraph (mounted exampleData 300 200 []) = mounted exampleData 300 200 exampleFrame \<and>
   renderGraph (renderGraph (mounted exampleData 300 200 [])) =
     mounted exampleData 300 200 exampleFrame \<and>
   renderGraph ((mounted exampleData 300 200 [])\<lparr>svgRef := Some exampleFrame\<rparr>) =
     mounted exampleData 300 200 exampleFrame"
proof -
  have 1: "data (state (mounted exampleData 300 200 [])) = Some exampleData"
    and 2: "svgRef (mounted exampleData 300 200 []) = Some []"
    by (simp_all add: mounted_def)
  from renderGraph_idempotent [of "mounted exampleData 300 200 []"] 1 2
  show ?thesis
    by (simp only: renderGraph_exampleData [of "[]"])
qed

text \<open>
  C7, as stated, fails: with \<open>numLayers = 0\<close> the pass is neither refused nor without
  effect. After the scenario's dataset has been rendered, it removes that frame and
  leaves an empty group.
\<close>

theorem empty_grid_counterexample:
  "numLayers emptyGrid \<le> 0 \<and>
   renderGraph (mounted exampleData 300 200 []) = mounted exampleData 300 200 exampleFrame \<and>
   renderGraph (mounted emptyGrid 300 200 exampleFrame) =
     mounted emptyGrid 300 200 [Group ''translate(20,20)'' []] \<and>
   renderGraph (mounted emptyGrid 300 200 exampleFrame) \<noteq> mounted emptyGrid 300 200 exampleFrame"
proof -
  have 1: "data (state (mounted emptyGrid 300 200 exampleFrame)) = Some emptyGrid"
    and 2: "svgRef (mounted emptyGrid 300 200 exampleFrame) = Some exampleFrame"
    by (simp_all add: mounted_def)
  have 3: "numLayers emptyGrid \<le> 0" and 4: "attentionPatterns emptyGrid = []"
    by (simp_all add: emptyGrid_def)
  from 3 have 5: "createNodes emptyGrid w h = []" for w h
    by (simp add: createNodes_empty)
  have "renderGraph (mounted emptyGrid 300 200 exampleFrame) =
     mounted emptyGrid 300 200 [Group ''translate(20,20)'' []]"
    unfolding renderGraph_attached [OF 1 2] by (simp add: mounted_def 4 5)
  with 3 show ?thesis
    by (simp add: renderGraph_exampleData) (simp add: mounted_def exampleFrame_def)
qed

text \<open>
  C7, amended. With \<open>numLayers \<le> 0\<close> or \<open>numTokens \<le> 0\<close> the pass runs as always and never
  fails: there is no node, the previous content is removed, and the SVG element is left
  with one empty group: no circle, no text, no line.
\<close>

theorem empty_grid_render:
  assumes "numLayers d \<le> 0 \<or> numTokens d \<le> 0"
    and "data (state this) = Some d" and "svgRef this = Some previous"
  shows "createNodes d (width (state this)) (height (state this)) = [] \<and>
         renderGraph this = this\<lparr>svgRef := Some [Group ''translate(20,20)'' []]\<rparr>"
proof -
  from assms(1) have nodes: "createNodes d (width (state this)) (height (state this)) = []"
    by (rule createNodes_empty)
  have "drawEdge [] p [] = []" for p
    by (simp add: drawEdge_def)
  then show ?thesis
    unfolding renderGraph_attached [OF assms(2,3)] nodes by simp
qed

theorem empty_grid_render_witness:
  "(numLayers emptyGrid \<le> 0 \<or> numTokens emptyGrid \<le> 0) \<and>
   renderGraph (mounted emptyGrid 300 200 exampleFrame) =
     mounted emptyGrid 300 200 [Group ''translate(20,20)'' []]"
proof -
  have 1: "numLayers emptyGrid \<le> 0 \<or> numTokens emptyGrid \<le> 0"
    by (simp add: emptyGrid_def)
  have 2: "data (state (mounted emptyGrid 300 200 exampleFrame)) = Some emptyGrid"
    and 3: "svgRef (mounted emptyGrid 300 200 exampleFrame) = Some exampleFrame"
    by (simp_all add: mounted_def)
  from empty_grid_render [OF 1 2 3] 1 show ?thesis
    by (simp add: mounted_def)
qed

text \<open>
  C8. Without \<open>tokens\<close>, the node at token index \<open>t\<close> has the label "T<t>", so each row
  of the grid is labelled T0, T1, ... in token order, and the text the render pass draws
  for a node is "L<layer>-T<t>". With \<open>tokens\<close> present and at least \<open>numTokens\<close> long, the
  node at token index \<open>t\<close> has the label \<open>tokens[t]\<close> and the text drawn is
  "L<layer>-<tokens[t]>". In both cases the SVG element holds, after \<open>renderGraph\<close>, one
  group with the circles, then these texts in the order of the nodes, then the lines.
\<close>

theorem node_labels:
  assumes "data (state this) = Some d" and "svgRef this = Some previous"
    and "nodes = createNodes d (width (state this)) (height (state this))"
  shows "(tokens d = None \<longrightarrow>
            map label nodes =
              concat (map (\<lambda>l. map (\<lambda>t. Str (''T'' @ template_number t)) [0..numTokens d - 1])
                [0..numLayers d - 1]) \<and>
            (\<forall>n \<in> set nodes. label n = Str (''T'' @ template_number (token n))) \<and>
            addLabels nodes g =
              g @ map (\<lambda>n. Text (x n) (y n - 10) ''middle'' ''12px''
                        (''L'' @ template_number (layer n) @ ''-'' @ ''T'' @ template_number (token n)))
                    nodes \<and>
            renderGraph this =
              this\<lparr>svgRef := Some [Group ''translate(20,20)''
                (map (\<lambda>n. Circle (x n) (y n) 5 ''#e5e7eb'') nodes @
                 map (\<lambda>n. Text (x n) (y n - 10) ''middle'' ''12px''
                        (''L'' @ template_number (layer n) @ ''-'' @ ''T'' @ template_number (token n)))
                   nodes @
                 concat (map (\<lambda>p. drawEdge nodes p []) (attentionPatterns d)))]\<rparr>) \<and>
         (\<forall>ts. tokens d = Some ts \<longrightarrow> numTokens d \<le> int (length ts) \<longrightarrow>
            map label nodes =
              concat (map (\<lambda>l. map (\<lambda>t. Str (ts ! nat t)) [0..numTokens d - 1])
                [0..numLayers d - 1]) \<and>
            (\<forall>n \<in> set nodes. label n = Str (ts ! nat (token n))) \<and>
            addLabels nodes g =
              g @ map (\<lambda>n. Text (x n) (y n - 10) ''middle'' ''12px''
                        (''L'' @ template_number (layer n) @ ''-'' @ ts ! nat (token n)))
                    nodes \<and>
            renderGraph this =
              this\<lparr>svgRef := Some [Group ''translate(20,20)''
                (map (\<lambda>n. Circle (x n) (y n) 5 ''#e5e7eb'') nodes @
                 map (\<lambda>n. Text (x n) (y n - 10) ''middle'' ''12px''
                        (''L'' @ template_number (layer n) @ ''-'' @ ts ! nat (token n)))
                   nodes @
                 concat (map (\<lambda>p. drawEdge nodes p []) (attentionPatterns d)))]\<rparr>)"
proof (intro conjI allI impI)
  assume absent: "tokens d = None"
  then show "map label nodes =
      concat (map (\<lambda>l. map (\<lambda>t. Str (''T'' @ template_number t)) [0..numTokens d - 1])
        [0..numLayers d - 1])"
    unfolding assms(3) createNodes_grid by (simp add: map_concat comp_def)
  show labels: "\<forall>n \<in> set nodes. label n = Str (''T'' @ template_number (token n))"
  proof
    fix n
    assume "n \<in> set nodes"
    then obtain l t where
      "n = gridNode (xScaleOf d (width (state this))) (yScaleOf d (height (state this)))
             (tokens d) l t"
      unfolding assms(3) in_createNodes by blast
    with absent show "label n = Str (''T'' @ template_number (token n))"
      by simp
  qed
  have texts: "map (\<lambda>n. Text (x n) (y n - 10) ''middle'' ''12px''
                (''L'' @ template_number (layer n) @ ''-'' @ template_string (label n))) nodes =
        map (\<lambda>n. Text (x n) (y n - 10) ''middle'' ''12px''
                (''L'' @ template_number (layer n) @ ''-'' @ ''T'' @ template_number (token n))) nodes"
    by (rule map_cong) (simp_all add: labels template_string_def)
  then show "addLabels nodes g =
      g @ map (\<lambda>n. Text (x n) (y n - 10) ''middle'' ''12px''
                (''L'' @ template_number (layer n) @ ''-'' @ ''T'' @ template_number (token n)))
            nodes"
    by (simp only: addLabels_def)
  from texts show "renderGraph this =
      this\<lparr>svgRef := Some [Group ''translate(20,20)''
        (map (\<lambda>n. Circle (x n) (y n) 5 ''#e5e7eb'') nodes @
         map (\<lambda>n. Text (x n) (y n - 10) ''middle'' ''12px''
                (''L'' @ template_number (layer n) @ ''-'' @ ''T'' @ template_number (token n)))
           nodes @
         concat (map (\<lambda>p. drawEdge nodes p []) (attentionPatterns d)))]\<rparr>"
    unfolding renderGraph_attached [OF assms(1,2)] assms(3) [symmetric] by simp
next
  fix ts
  assume present: "tokens d = Some ts" and enough: "numTokens d \<le> int (length ts)"
  have inside: "array_get ts t = Str (ts ! nat t)" if "t \<in> set [0..numTokens d - 1]" for t
    using that enough by (simp add: array_get_def)
  have row: "map (array_get ts) [0..numTokens d - 1] =
        map (\<lambda>t. Str (ts ! nat t)) [0..numTokens d - 1]"
    by (rule map_cong) (simp_all only: inside)
  from present have "map label nodes =
      concat (map (\<lambda>l. map (array_get ts) [0..numTokens d - 1]) [0..numLayers d - 1])"
    unfolding assms(3) createNodes_grid by (simp add: map_concat comp_def)
  then show "map label nodes =
      concat (map (\<lambda>l. map (\<lambda>t. Str (ts ! nat t)) [0..numTokens d - 1]) [0..numLayers d - 1])"
    by (simp only: row)
  show labels: "\<forall>n \<in> set nodes. label n = Str (ts ! nat (token n))"
  proof
    fix n
    assume "n \<in> set nodes"
    then obtain l t where "0 \<le> t" and "t < numTokens d"
      and "n = gridNode (xScaleOf d (width (state this))) (yScaleOf d (height (state this)))
                 (tokens d) l t"
      unfolding assms(3) in_createNodes by blast
    with present enough show "label n = Str (ts ! nat (token n))"
      by (simp add: array_get_def)
  qed
  have texts: "map (\<lambda>n. Text (x n) (y n - 10) ''middle'' ''12px''
                (''L'' @ template_number (layer n) @ ''-'' @ template_string (label n))) nodes =
        map (\<lambda>n. Text (x n) (y n - 10) ''middle'' ''12px''
                (''L'' @ template_number (layer n) @ ''-'' @ ts ! nat (token n))) nodes"
    by (rule map_cong) (simp_all add: labels template_string_def)
  then show "addLabels nodes g =
      g @ map (\<lambda>n. Text (x n) (y n - 10) ''middle'' ''12px''
                (''L'' @ template_number (layer n) @ ''-'' @ ts ! nat (token n)))
            nodes"
    by (simp only: addLabels_def)
  from texts show "renderGraph this =
      this\<lparr>svgRef := Some [Group ''translate(20,20)''
        (map (\<lambda>n. Circle (x n) (y n) 5 ''#e5e7eb'') nodes @
         map (\<lambda>n. Text (x n) (y n - 10) ''middle'' ''12px''
                (''L'' @ template_number (layer n) @ ''-'' @ ts ! nat (token n)))
           nodes @
         concat (map (\<lambda>p. drawEdge nodes p []) (attentionPatterns d)))]\<rparr>"
    unfolding renderGraph_attached [OF assms(1,2)] assms(3) [symmetric] by simp
qed

theorem node_labels_witness:
  "tokens unlabelled = None \<and>
   map label (createNodes unlabelled 300 200) = [Str ''T0'', Str ''T1'', Str ''T0'', Str ''T1''] \<and>
   svgRef (renderGraph (mounted unlabelled 300 200 [])) =
     Some [Group ''translate(20,20)''
       [Circle 0 0 5 ''#e5e7eb'', Circle 260 0 5 ''#e5e7eb'',
        Circle 0 160 5 ''#e5e7eb'', Circle 260 160 5 ''#e5e7eb'',
        Text 0 (- 10) ''middle'' ''12px'' ''L0-T0'', Text 260 (- 10) ''middle'' ''12px'' ''L0-T1'',
        Text 0 150 ''middle'' ''12px'' ''L1-T0'', Text 260 150 ''middle'' ''12px'' ''L1-T1'']] \<and>
   tokens exampleData = Some [''The'', ''cat''] \<and>
   numTokens exampleData \<le> int (length [''The'', ''cat'']) \<and>
   map label (createNodes exampleData 300 200) =
     [Str ''The'', Str ''cat'', Str ''The'', Str ''cat''] \<and>
   svgRef (renderGraph (mounted exampleData 300 200 [])) =
     Some [Group ''translate(20,20)''
       [Circle 0 0 5 ''#e5e7eb'', Circle 260 0 5 ''#e5e7eb'',
        Circle 0 160 5 ''#e5e7eb'', Circle 260 160 5 ''#e5e7eb'',
        Text 0 (- 10) ''middle'' ''12px'' ''L0-The'', Text 260 (- 10) ''middle'' ''12px'' ''L0-cat'',
        Text 0 150 ''middle'' ''12px'' ''L1-The'', Text 260 150 ''middle'' ''12px'' ''L1-cat'',
        Line 260 160 0 0 ''#3B82F6'' 1.6 0.8]]"
proof -
  let ?u = "mounted unlabelled 300 200 []"
  let ?e = "mounted exampleData 300 200 []"
  have u: "data (state ?u) = Some unlabelled" "svgRef ?u = Some []"
    "createNodes unlabelled 300 200 = createNodes unlabelled (width (state ?u)) (height (state ?u))"
    by (simp_all add: mounted_def)
  have e: "data (state ?e) = Some exampleData" "svgRef ?e = Some []"
    "createNodes exampleData 300 200 =
       createNodes exampleData (width (state ?e)) (height (state ?e))"
    by (simp_all add: mounted_def)
  have absent: "tokens unlabelled = None" and none: "attentionPatterns unlabelled = []"
    by (simp_all add: unlabelled_def)
  have present: "tokens exampleData = Some [''The'', ''cat'']"
    and enough: "numTokens exampleData \<le> int (length [''The'', ''cat''])"
    and one: "attentionPatterns exampleData =
      [\<lparr>sourceLayer = 1, sourceToken = 1, destLayer = 0, destToken = 0, weight = 0.8, head = 0\<rparr>]"
    by (simp_all add: exampleData_def)
  have sizes: "numTokens unlabelled = 2" "numLayers unlabelled = 2"
    "numTokens exampleData = 2" "numLayers exampleData = 2"
    by (simp_all add: unlabelled_def exampleData_def)
  from node_labels [OF u, of "[]"] absent
  have "map label (createNodes unlabelled 300 200) =
      [Str ''T0'', Str ''T1'', Str ''T0'', Str ''T1'']"
    and "svgRef (renderGraph ?u) =
     Some [Group ''translate(20,20)''
       [Circle 0 0 5 ''#e5e7eb'', Circle 260 0 5 ''#e5e7eb'',
        Circle 0 160 5 ''#e5e7eb'', Circle 260 160 5 ''#e5e7eb'',
        Text 0 (- 10) ''middle'' ''12px'' ''L0-T0'', Text 260 (- 10) ''middle'' ''12px'' ''L0-T1'',
        Text 0 150 ''middle'' ''12px'' ''L1-T0'', Text 260 150 ''middle'' ''12px'' ''L1-T1'']]"
    by (simp_all add: sizes upto_0_1 template_number_0 template_number_1
        createNodes_unlabelled none)
  moreover from node_labels [OF e, of "[]"] present enough
  have "map label (createNodes exampleData 300 200) =
      [Str ''The'', Str ''cat'', Str ''The'', Str ''cat'']"
    and "svgRef (renderGraph ?e) =
     Some [Group ''translate(20,20)''
       [Circle 0 0 5 ''#e5e7eb'', Circle 260 0 5 ''#e5e7eb'',
        Circle 0 160 5 ''#e5e7eb'', Circle 260 160 5 ''#e5e7eb'',
        Text 0 (- 10) ''middle'' ''12px'' ''L0-The'', Text 260 (- 10) ''middle'' ''12px'' ''L0-cat'',
        Text 0 150 ''middle'' ''12px'' ''L1-The'', Text 260 150 ''middle'' ''12px'' ''L1-cat'',
        Line 260 160 0 0 ''#3B82F6'' 1.6 0.8]]"
    by (simp_all add: sizes upto_0_1 template_number_0 template_number_1
        createNodes_exampleData one drawEdge_def)
  ultimately show ?thesis
    using absent present enough by simp
qed

text \<open>
  C9. Two datasets that differ only in the \<open>head\<close> fields of their attention patterns are
  rendered alike, for every width, height and previous content of the SVG element.
\<close>

theorem head_not_rendered:
  assumes "withoutHeads d1 = withoutHeads d2"
  shows "svgRef (renderGraph \<lparr>state = \<lparr>data = Some d1, width = w, height = h\<rparr>,
                              svgRef = surface\<rparr>) =
         svgRef (renderGraph \<lparr>state = \<lparr>data = Some d2, width = w, height = h\<rparr>,
                              svgRef = surface\<rparr>)"
proof -
  have "svgRef (renderGraph \<lparr>state = \<lparr>data = Some d1, width = w, height = h\<rparr>,
                             svgRef = surface\<rparr>) =
        svgRef (renderGraph \<lparr>state = \<lparr>data = Some (withoutHeads d1), width = w, height = h\<rparr>,
                             svgRef = surface\<rparr>)"
    by (rule renderGraph_withoutHeads [symmetric])
  also have "\<dots> =
        svgRef (renderGraph \<lparr>state = \<lparr>data = Some (withoutHeads d2), width = w, height = h\<rparr>,
                             svgRef = surface\<rparr>)"
    by (simp only: assms)
  also have "\<dots> =
        svgRef (renderGraph \<lparr>state = \<lparr>data = Some d2, width = w, height = h\<rparr>,
                             svgRef = surface\<rparr>)"
    by (rule renderGraph_withoutHeads)
  finally show ?thesis .
qed

theorem head_not_rendered_witness:
  "withoutHeads exampleData = withoutHeads headSeven \<and>
   exampleData \<noteq> headSeven \<and>
   svgRef (renderGraph \<lparr>state = \<lparr>data = Some headSeven, width = 300, height = 200\<rparr>,
                        svgRef = Some []\<rparr>) = Some exampleFrame"
proof -
  have same: "withoutHeads exampleData = withoutHeads headSeven"
    by (simp add: withoutHeads_def headSeven_def exampleData_def)
  have differ: "exampleData \<noteq> headSeven"
    by (simp add: headSeven_def exampleData_def)
  from head_not_rendered [OF same, of 300 200 "Some []"] same differ
  show ?thesis
    using renderGraph_exampleData [of "[]"] by (simp add: mounted_def)
qed

text \<open>
  C10. When the state has no data, or the reference has no SVG element, \<open>renderGraph\<close>
  changes nothing: what was drawn before stays as it is.
\<close>

theorem renderGraph_returns_early:
  assumes "data (state this) = None \<or> svgRef this = None"
  shows "renderGraph this = this"
  using assms by (auto simp add: renderGraph_def split: option.splits)

theorem renderGraph_returns_early_witness:
  "data (state \<lparr>state = \<lparr>data = None, width = 300, height = 200\<rparr>, svgRef = Some exampleFrame\<rparr>)
     = None \<and>
   renderGraph \<lparr>state = \<lparr>data = None, width = 300, height = 200\<rparr>, svgRef = Some exampleFrame\<rparr> =
     \<lparr>state = \<lparr>data = None, width = 300, height = 200\<rparr>, svgRef = Some exampleFrame\<rparr> \<and>
   svgRef \<lparr>state = \<lparr>data = Some exampleData, width = 300, height = 200\<rparr>, svgRef = None\<rparr>
     = None \<and>
   renderGraph \<lparr>state = \<lparr>data = Some exampleData, width = 300, height = 200\<rparr>, svgRef = None\<rparr> =
     \<lparr>state = \<lparr>data = Some exampleData, width = 300, height = 200\<rparr>, svgRef = None\<rparr>"
  using renderGraph_returns_early
      [of "\<lparr>state = \<lparr>data = None, width = 300, height = 200\<rparr>, svgRef = Some exampleFrame\<rparr>"]
    renderGraph_returns_early
      [of "\<lparr>state = \<lparr>data = Some exampleData, width = 300, height = 200\<rparr>, svgRef = None\<rparr>"]
  by simp

end
